theory Spec2Isabelle
  imports Complex_Main
begin

section \<open>Python values used by the program\<close>

text \<open>
  Python floats are modelled as exact reals: every statement below is about the
  arithmetic the program writes down, without the binary rounding of IEEE doubles.
  Exceptions are values: a function that can raise returns \<open>error + 'a\<close>, with
  \<open>Inl\<close> for the exception that leaves the function.
\<close>

datatype error =
    AttributeError string
  | KeyError string
  | ValueError string
  | OtherError string

definition and_then :: "error + 'a \<Rightarrow> ('a \<Rightarrow> error + 'b) \<Rightarrow> error + 'b" where
  "and_then m f = (case m of Inl e \<Rightarrow> Inl e | Inr v \<Rightarrow> f v)"

text \<open>Python's \<^verbatim>\<open>round(x, n)\<close>: to the nearest multiple of \<open>10\<^sup>-\<^sup>n\<close>, a tie to the even one.\<close>

definition round_half_even :: "real \<Rightarrow> int" where
  "round_half_even x =
     (let f = \<lfloor>x\<rfloor>; d = x - of_int f
      in if d < 1 / 2 then f else if 1 / 2 < d then f + 1 else if even f then f else f + 1)"

definition py_round :: "real \<Rightarrow> nat \<Rightarrow> real" where
  "py_round x n = of_int (round_half_even (x * 10 ^ n)) / 10 ^ n"

text \<open>\<^verbatim>\<open>x or d\<close> on an optional float: \<^verbatim>\<open>None\<close> and \<^verbatim>\<open>0.0\<close> are both falsy.\<close>

definition float_or :: "real option \<Rightarrow> real \<Rightarrow> real" where
  "float_or x d = (case x of None \<Rightarrow> d | Some v \<Rightarrow> if v = 0 then d else v)"

text \<open>A \<^verbatim>\<open>dict\<close> with string keys, in insertion order.\<close>

type_synonym 'v dict = "(string \<times> 'v) list"

definition dict_get :: "'v dict \<Rightarrow> string \<Rightarrow> 'v option" where
  "dict_get d k = map_of d k"

definition dict_get_default :: "'v dict \<Rightarrow> string \<Rightarrow> 'v \<Rightarrow> 'v" where
  "dict_get_default d k dflt = (case map_of d k of None \<Rightarrow> dflt | Some v \<Rightarrow> v)"

definition dict_item :: "'v dict \<Rightarrow> string \<Rightarrow> error + 'v" where
  "dict_item d k = (case map_of d k of None \<Rightarrow> Inl (KeyError k) | Some v \<Rightarrow> Inr v)"

text \<open>\<^verbatim>\<open>str.lower\<close> and the whitespace of \<^verbatim>\<open>str.split\<close> and \<^verbatim>\<open>str.strip\<close>, on ASCII text.\<close>

definition lower_char :: "char \<Rightarrow> char" where
  "lower_char c =
     (case map_of (zip ''ABCDEFGHIJKLMNOPQRSTUVWXYZ'' ''abcdefghijklmnopqrstuvwxyz'') c of
        None \<Rightarrow> c
      | Some l \<Rightarrow> l)"

definition lower :: "string \<Rightarrow> string" where
  "lower s = map lower_char s"

definition is_space :: "char \<Rightarrow> bool" where
  "is_space c \<longleftrightarrow>
     c \<in> set [CHR 0x09, CHR 0x0A, CHR 0x0B, CHR 0x0C, CHR 0x0D,
              CHR 0x1C, CHR 0x1D, CHR 0x1E, CHR 0x1F, CHR '' '']"

section \<open>config.py\<close>

record ProfitConfig =
  AMAZON_FEE_PERCENT :: real
  EBAY_FEE_PERCENT :: real
  PAYPAL_FEE_PERCENT :: real
  PAYPAL_FEE_FIXED :: real
  DEFAULT_SALES_TAX :: real
  DEFAULT_SHIPPING_COST :: real
  MIN_PROFIT_AMOUNT :: real
  MIN_PROFIT_MARGIN :: real

definition PROFIT_CONFIG :: ProfitConfig where
  "PROFIT_CONFIG =
     \<lparr> AMAZON_FEE_PERCENT = 15 / 100,
       EBAY_FEE_PERCENT = 13 / 100,
       PAYPAL_FEE_PERCENT = 29 / 1000,
       PAYPAL_FEE_FIXED = 30 / 100,
       DEFAULT_SALES_TAX = 8 / 100,
       DEFAULT_SHIPPING_COST = 5,
       MIN_PROFIT_AMOUNT = 5,
       MIN_PROFIT_MARGIN = 20 / 100 \<rparr>"

text \<open>
  The instance dictionary of a \<^verbatim>\<open>ProfitConfig\<close>: the eight dataclass fields, all floats.
  \<^verbatim>\<open>getattr\<close> on any other name raises \<^verbatim>\<open>AttributeError\<close>.
\<close>

definition ProfitConfig_vars :: "ProfitConfig \<Rightarrow> real dict" where
  "ProfitConfig_vars c =
     [ (''AMAZON_FEE_PERCENT'', AMAZON_FEE_PERCENT c),
       (''EBAY_FEE_PERCENT'', EBAY_FEE_PERCENT c),
       (''PAYPAL_FEE_PERCENT'', PAYPAL_FEE_PERCENT c),
       (''PAYPAL_FEE_FIXED'', PAYPAL_FEE_FIXED c),
       (''DEFAULT_SALES_TAX'', DEFAULT_SALES_TAX c),
       (''DEFAULT_SHIPPING_COST'', DEFAULT_SHIPPING_COST c),
       (''MIN_PROFIT_AMOUNT'', MIN_PROFIT_AMOUNT c),
       (''MIN_PROFIT_MARGIN'', MIN_PROFIT_MARGIN c) ]"

definition getattr :: "ProfitConfig \<Rightarrow> string \<Rightarrow> error + real" where
  "getattr c name =
     (case map_of (ProfitConfig_vars c) name of
        None \<Rightarrow> Inl (AttributeError name)
      | Some v \<Rightarrow> Inr v)"

text \<open>
  \<^verbatim>\<open>CATEGORY_MARGINS\<close> is a global of the module \<^verbatim>\<open>config\<close>, not a field of
  \<^verbatim>\<open>ProfitConfig\<close>; the calculator imports only \<^verbatim>\<open>PROFIT_CONFIG\<close>.
\<close>

definition CATEGORY_MARGINS :: "real dict" where
  "CATEGORY_MARGINS =
     [ (''Electronics'', 15 / 100),
       (''Home & Garden'', 15 / 100),
       (''Toys'', 15 / 100),
       (''Clothing'', 17 / 100),
       (''Books'', 15 / 100),
       (''Other'', 15 / 100) ]"

text \<open>\<^verbatim>\<open>x.get(key, default)\<close> where \<open>x\<close> is a float: a float has no method \<^verbatim>\<open>get\<close>.\<close>

definition float_get :: "real \<Rightarrow> string \<Rightarrow> real \<Rightarrow> error + real" where
  "float_get x key dflt = Inl (AttributeError ''get'')"

section \<open>profit\_calculator.py\<close>

record ProfitAnalysis =
  buy_price :: real
  sales_tax_rate :: real
  sales_tax_amount :: real
  total_buy_cost :: real
  sell_price :: real
  marketplace :: string
  platform_fees :: real
  payment_processing_fees :: real
  fulfillment_fees :: real
  total_fees :: real
  estimated_shipping :: real
  gross_revenue :: real
  net_profit :: real
  profit_margin :: real
  roi_percent :: real
  is_profitable :: bool
  opportunity_score :: real
  recommendation :: string
  fee_breakdown :: "real dict"

text \<open>The attributes of a \<^verbatim>\<open>ProfitCalculator\<close> instance (\<^verbatim>\<open>self.sales_tax_rate\<close>, ...).\<close>

record ProfitCalculator =
  self_sales_tax_rate :: real
  self_shipping_cost :: real
  self_min_profit_amount :: real
  self_min_profit_margin :: real

definition init :: "real option \<Rightarrow> real option \<Rightarrow> real option \<Rightarrow> real option \<Rightarrow> ProfitCalculator" where
  "init sales_tax_rate_arg shipping_cost_arg min_profit_amount_arg min_profit_margin_arg =
     \<lparr> self_sales_tax_rate = float_or sales_tax_rate_arg (DEFAULT_SALES_TAX PROFIT_CONFIG),
       self_shipping_cost = float_or shipping_cost_arg (DEFAULT_SHIPPING_COST PROFIT_CONFIG),
       self_min_profit_amount = float_or min_profit_amount_arg (MIN_PROFIT_AMOUNT PROFIT_CONFIG),
       self_min_profit_margin = float_or min_profit_margin_arg (MIN_PROFIT_MARGIN PROFIT_CONFIG) \<rparr>"

definition calculate_buy_cost :: "ProfitCalculator \<Rightarrow> real \<Rightarrow> real option \<Rightarrow> real dict" where
  "calculate_buy_cost self item_price sales_tax_rate_arg =
     (let tax_rate = float_or sales_tax_rate_arg (self_sales_tax_rate self);
          tax_amount = item_price * tax_rate
      in [ (''item_price'', item_price),
           (''sales_tax_rate'', tax_rate),
           (''sales_tax_amount'', py_round tax_amount 2),
           (''total_buy_cost'', py_round (item_price + tax_amount) 2) ])"

definition estimate_fba_fee :: "real \<Rightarrow> real" where
  "estimate_fba_fee sell_price_arg =
     (if sell_price_arg < 10 then 322 / 100
      else if sell_price_arg < 20 then 450 / 100
      else if sell_price_arg < 50 then 550 / 100
      else if sell_price_arg < 100 then 650 / 100
      else 8)"

definition calculate_amazon_fees :: "ProfitCalculator \<Rightarrow> real \<Rightarrow> string \<Rightarrow> error + real dict" where
  "calculate_amazon_fees self sell_price_arg category =
     and_then (getattr PROFIT_CONFIG ''CATEGORY_MARGINS'') (\<lambda>margins.
     and_then (float_get margins category (AMAZON_FEE_PERCENT PROFIT_CONFIG)) (\<lambda>referral_rate.
       let referral_fee = sell_price_arg * referral_rate;
           fba_fee = estimate_fba_fee sell_price_arg;
           closing_fee = (if category \<in> set [''Books'', ''Music'', ''DVD''] then 180 / 100 else 0);
           total = referral_fee + fba_fee + closing_fee
       in Inr [ (''referral_fee'', py_round referral_fee 2),
                (''fulfillment_fee'', py_round fba_fee 2),
                (''closing_fee'', py_round closing_fee 2),
                (''total_fees'', py_round total 2) ]))"

definition calculate_ebay_fees :: "ProfitCalculator \<Rightarrow> real \<Rightarrow> real dict" where
  "calculate_ebay_fees self sell_price_arg =
     (let final_value_fee = sell_price_arg * EBAY_FEE_PERCENT PROFIT_CONFIG;
          payment_fee = sell_price_arg * PAYPAL_FEE_PERCENT PROFIT_CONFIG + PAYPAL_FEE_FIXED PROFIT_CONFIG;
          insertion_fee = 0;
          total = final_value_fee + payment_fee + insertion_fee
      in [ (''final_value_fee'', py_round final_value_fee 2),
           (''payment_processing_fee'', py_round payment_fee 2),
           (''insertion_fee'', py_round insertion_fee 2),
           (''total_fees'', py_round total 2) ])"

definition calculate_opportunity_score :: "real \<Rightarrow> real \<Rightarrow> real \<Rightarrow> real" where
  "calculate_opportunity_score net_profit_arg profit_margin_arg roi_percent_arg =
     (let profit_score = min (net_profit_arg / 20) 40;
          margin_score = min (profit_margin_arg / 2) 30;
          roi_score = min (roi_percent_arg / 3) 30;
          total_score = profit_score + margin_score + roi_score
      in min total_score 100)"

definition generate_recommendation :: "bool \<Rightarrow> real \<Rightarrow> real \<Rightarrow> real \<Rightarrow> string" where
  "generate_recommendation is_profitable_arg net_profit_arg profit_margin_arg roi_percent_arg =
     (if \<not> is_profitable_arg then
        (if net_profit_arg < 0 then ''AVOID: Negative profit potential''
         else if profit_margin_arg < 10 then ''LOW MARGIN: Insufficient profit margin''
         else ''BELOW THRESHOLD: Doesn't meet minimum criteria'')
      else if net_profit_arg > 20 \<and> roi_percent_arg > 50 then ''EXCELLENT: High profit and ROI opportunity''
      else if net_profit_arg > 10 \<and> roi_percent_arg > 30 then ''GOOD: Solid profit potential''
      else if roi_percent_arg > 50 then ''PROMISING: High ROI, monitor closely''
      else ''ACCEPTABLE: Meets minimum criteria'')"

definition calculate_profit ::
  "ProfitCalculator \<Rightarrow> real \<Rightarrow> real \<Rightarrow> string \<Rightarrow> string \<Rightarrow> bool \<Rightarrow> error + ProfitAnalysis" where
  "calculate_profit self buy_price_arg sell_price_arg marketplace_arg category include_shipping =
     (let buy_cost = calculate_buy_cost self buy_price_arg None in
      and_then (dict_item buy_cost ''total_buy_cost'') (\<lambda>total_buy_cost_v.
      and_then (if lower marketplace_arg = ''amazon''
                then calculate_amazon_fees self sell_price_arg category
                else Inr (calculate_ebay_fees self sell_price_arg)) (\<lambda>fees.
      and_then (dict_item fees ''total_fees'') (\<lambda>total_fees_v.
        let shipping = (if include_shipping then self_shipping_cost self else 0);
            gross = sell_price_arg;
            total_costs = total_buy_cost_v + total_fees_v + shipping;
            net = gross - total_costs;
            margin = (if sell_price_arg > 0 then net / sell_price_arg * 100 else 0);
            roi = (if total_buy_cost_v > 0 then net / total_buy_cost_v * 100 else 0);
            profitable = (net \<ge> self_min_profit_amount self \<and> margin \<ge> self_min_profit_margin self * 100);
            score = calculate_opportunity_score net margin roi;
            rec = generate_recommendation profitable net margin roi
        in
      and_then (dict_item buy_cost ''sales_tax_rate'') (\<lambda>sales_tax_rate_v.
      and_then (dict_item buy_cost ''sales_tax_amount'') (\<lambda>sales_tax_amount_v.
        Inr \<lparr> buy_price = buy_price_arg,
              sales_tax_rate = sales_tax_rate_v,
              sales_tax_amount = sales_tax_amount_v,
              total_buy_cost = total_buy_cost_v,
              sell_price = sell_price_arg,
              marketplace = marketplace_arg,
              platform_fees = float_or (dict_get fees ''referral_fee'') (dict_get_default fees ''final_value_fee'' 0),
              payment_processing_fees = dict_get_default fees ''payment_processing_fee'' 0,
              fulfillment_fees = dict_get_default fees ''fulfillment_fee'' 0,
              total_fees = total_fees_v,
              estimated_shipping = shipping,
              gross_revenue = gross,
              net_profit = py_round net 2,
              profit_margin = py_round margin 2,
              roi_percent = py_round roi 2,
              is_profitable = profitable,
              opportunity_score = py_round score 2,
              recommendation = rec,
              fee_breakdown = fees \<rparr>))))))"

text \<open>
  \<^verbatim>\<open>min(xs, key=f)\<close> and \<^verbatim>\<open>max(xs, key=f)\<close>: the first element with the least
  (greatest) key; \<^verbatim>\<open>ValueError\<close> on an empty sequence.
\<close>

fun min_by :: "('a \<Rightarrow> real) \<Rightarrow> 'a list \<Rightarrow> error + 'a" where
  "min_by key [] = Inl (ValueError ''min() arg is an empty sequence'')"
| "min_by key (x # xs) = Inr (foldl (\<lambda>best y. if key y < key best then y else best) x xs)"

fun max_by :: "('a \<Rightarrow> real) \<Rightarrow> 'a list \<Rightarrow> error + 'a" where
  "max_by key [] = Inl (ValueError ''max() arg is an empty sequence'')"
| "max_by key (x # xs) = Inr (foldl (\<lambda>best y. if key y > key best then y else best) x xs)"

text \<open>
  The guard \<^verbatim>\<open>if amazon_price and amazon_price > 0\<close>: a price that is \<^verbatim>\<open>None\<close>, zero or
  negative adds no candidate.
\<close>

definition compare_marketplaces ::
  "ProfitCalculator \<Rightarrow> real \<Rightarrow> real option \<Rightarrow> real option \<Rightarrow> string \<Rightarrow> error + ProfitAnalysis dict" where
  "compare_marketplaces self buy_price_arg amazon_price ebay_price category =
     and_then (case amazon_price of
                 None \<Rightarrow> Inr []
               | Some p \<Rightarrow>
                   if p \<noteq> 0 \<and> p > 0
                   then and_then (calculate_profit self buy_price_arg p ''amazon'' category True)
                          (\<lambda>a. Inr [(''amazon'', a)])
                   else Inr []) (\<lambda>results.
       case ebay_price of
         None \<Rightarrow> Inr results
       | Some p \<Rightarrow>
           if p \<noteq> 0 \<and> p > 0
           then and_then (calculate_profit self buy_price_arg p ''ebay'' category True)
                  (\<lambda>a. Inr (results @ [(''ebay'', a)]))
           else Inr results)"

definition find_best_marketplace ::
  "ProfitCalculator \<Rightarrow> real \<Rightarrow> real option \<Rightarrow> real option \<Rightarrow> string \<Rightarrow> error + ProfitAnalysis option" where
  "find_best_marketplace self buy_price_arg amazon_price ebay_price category =
     and_then (compare_marketplaces self buy_price_arg amazon_price ebay_price category) (\<lambda>comparisons.
       if comparisons = [] then Inr None
       else
         let profitable = filter (\<lambda>(k, v). is_profitable v) comparisons
         in if profitable = []
            then and_then (min_by net_profit (map snd comparisons)) (\<lambda>a. Inr (Some a))
            else and_then (max_by net_profit (map snd profitable)) (\<lambda>a. Inr (Some a)))"

section \<open>utils.py\<close>


text \<open>\<^verbatim>\<open>str.split()\<close> with no argument: maximal runs of non-whitespace characters.\<close>

fun split_from :: "string \<Rightarrow> string \<Rightarrow> string list" where
  "split_from word [] = (if word = [] then [] else [word])"
| "split_from word (c # cs) =
     (if is_space c then (if word = [] then [] else [word]) @ split_from [] cs
      else split_from (word @ [c]) cs)"

definition str_split :: "string \<Rightarrow> string list" where
  "str_split s = split_from [] s"

definition fuzzy_match_products :: "string \<Rightarrow> string \<Rightarrow> real" where
  "fuzzy_match_products product_name1 product_name2 =
     (let words1 = set (str_split (lower product_name1));
          words2 = set (str_split (lower product_name2))
      in if words1 = {} \<or> words2 = {} then 0
         else real (card (words1 \<inter> words2)) / real (card (words1 \<union> words2)))"

section \<open>scraper\_module.py: the HTML element parsers\<close>

text \<open>The payload kept in \<^verbatim>\<open>raw_data\<close>: a parsed JSON value.\<close>

datatype json =
    JNull
  | JBool bool
  | JNumber real
  | JString string
  | JArray "json list"
  | JObject "(string \<times> json) list"

record ScrapedItem =
  product_id :: string
  product_name :: string
  current_price :: real
  original_price :: "real option"
  discount_percent :: "real option"
  upc :: "string option"
  stock_status :: string
  product_url :: "string option"
  image_url :: "string option"
  brand :: "string option"
  category :: "string option"
  deal_type :: string
  raw_data :: "json option"

text \<open>
  A parsed page as BeautifulSoup holds it: a tag with its name, its attributes and its
  children, or a piece of text.
\<close>

datatype html =
    Tag string "(string \<times> string) list" "html list"
  | NavString string

text \<open>\<^verbatim>\<open>elem.get(name)\<close>: the attribute's value, \<^verbatim>\<open>None\<close> when the tag does not have it.\<close>

fun tag_get :: "html \<Rightarrow> string \<Rightarrow> string option" where
  "tag_get (Tag n attrs cs) name = map_of attrs name"
| "tag_get (NavString s) name = None"

text \<open>All nodes below an element, in document order; \<^verbatim>\<open>find\<close> returns the first that matches.\<close>

fun descendants :: "html \<Rightarrow> html list" where
  "descendants (Tag n attrs cs) = concat (map (\<lambda>c. c # descendants c) cs)"
| "descendants (NavString s) = []"

fun get_text :: "html \<Rightarrow> string" where
  "get_text (Tag n attrs cs) = concat (map get_text cs)"
| "get_text (NavString s) = s"

fun has_attr_value :: "string \<Rightarrow> string \<Rightarrow> html \<Rightarrow> bool" where
  "has_attr_value name v (Tag n attrs cs) = (map_of attrs name = Some v)"
| "has_attr_value name v (NavString s) = False"

fun has_name :: "string \<Rightarrow> html \<Rightarrow> bool" where
  "has_name name (Tag n attrs cs) = (n = name)"
| "has_name name (NavString s) = False"

fun contains :: "string \<Rightarrow> string \<Rightarrow> bool" where
  "contains p [] = (p = [])"
| "contains p (c # cs) = (take (length p) (c # cs) = p \<or> contains p cs)"

text \<open>
  \<^verbatim>\<open>class_=re.compile(r'a|b', re.I)\<close>: a tag matches when one of the alternatives occurs
  in its \<^verbatim>\<open>class\<close> attribute, whatever the case of the letters.
\<close>

fun class_matches :: "string list \<Rightarrow> html \<Rightarrow> bool" where
  "class_matches alternatives (Tag n attrs cs) =
     (case map_of attrs ''class'' of
        None \<Rightarrow> False
      | Some v \<Rightarrow> list_ex (\<lambda>p. contains p (lower v)) alternatives)"
| "class_matches alternatives (NavString s) = False"

definition find_first :: "(html \<Rightarrow> bool) \<Rightarrow> html \<Rightarrow> html option" where
  "find_first P elem = List.find P (descendants elem)"

definition str_strip :: "string \<Rightarrow> string" where
  "str_strip s = rev (dropWhile is_space (rev (dropWhile is_space s)))"

definition is_digit :: "char \<Rightarrow> bool" where
  "is_digit c \<longleftrightarrow> c \<in> set ''0123456789''"

definition digit_value :: "char \<Rightarrow> nat" where
  "digit_value c =
     (case map_of (zip ''0123456789'' [0, 1, 2, 3, 4, 5, 6, 7, 8, 9]) c of
        None \<Rightarrow> 0
      | Some d \<Rightarrow> d)"

definition digits_value :: "string \<Rightarrow> nat" where
  "digits_value s = foldl (\<lambda>acc c. 10 * acc + digit_value c) 0 s"

text \<open>
  \<^verbatim>\<open>re.search(r'\$([\d,]+\.?\d*)', text)\<close>: group 1 of the leftmost match, that is, after
  the first dollar sign that a digit or a comma follows, the longest run of digits and
  commas, then a dot if there is one, then the digits after it.
\<close>

definition digit_or_comma :: "char \<Rightarrow> bool" where
  "digit_or_comma c \<longleftrightarrow> is_digit c \<or> c = CHR '',''"

fun price_search :: "string \<Rightarrow> string option" where
  "price_search [] = None"
| "price_search (c # cs) =
     (if c = CHR ''$'' \<and> takeWhile digit_or_comma cs \<noteq> [] then
        (case dropWhile digit_or_comma cs of
           [] \<Rightarrow> Some (takeWhile digit_or_comma cs)
         | d # ds \<Rightarrow>
             if d = CHR ''.'' then Some (takeWhile digit_or_comma cs @ [d] @ takeWhile is_digit ds)
             else Some (takeWhile digit_or_comma cs))
      else price_search cs)"

text \<open>
  \<^verbatim>\<open>float(s)\<close> on the strings the parsers pass to it, digits with at most one dot:
  \<^verbatim>\<open>ValueError\<close> when there is no digit at all.
\<close>

definition py_float :: "string \<Rightarrow> error + real" where
  "py_float s =
     (let whole = takeWhile is_digit s
      in case dropWhile is_digit s of
           [] \<Rightarrow> if whole = [] then Inl (ValueError s) else Inr (real (digits_value whole))
         | d # fraction \<Rightarrow>
             if d = CHR ''.'' \<and> list_all is_digit fraction \<and> (whole \<noteq> [] \<or> fraction \<noteq> [])
             then Inr (real (digits_value whole) + real (digits_value fraction) / 10 ^ length fraction)
             else Inl (ValueError s))"

text \<open>
  The price an HTML parser takes from the text of the price element:
  \<^verbatim>\<open>float(price_match.group(1).replace(',', '')) if price_match else 0\<close>.
\<close>

definition price_of_text :: "string \<Rightarrow> error + real" where
  "price_of_text price_text =
     (case price_search price_text of
        None \<Rightarrow> Inr 0
      | Some g \<Rightarrow> py_float (filter (\<lambda>c. c \<noteq> CHR '','') g))"

record scraper =
  base_url :: string

definition WalmartScraper :: scraper where
  "WalmartScraper = \<lparr> base_url = ''https://www.walmart.com'' \<rparr>"

definition HomeDepotScraper :: scraper where
  "HomeDepotScraper = \<lparr> base_url = ''https://www.homedepot.com'' \<rparr>"

text \<open>
  \<^verbatim>\<open>a or b\<close> on optional strings: \<^verbatim>\<open>None\<close> and the empty string are falsy.
\<close>

definition str_or :: "string option \<Rightarrow> string option \<Rightarrow> string option" where
  "str_or a b = (case a of None \<Rightarrow> b | Some v \<Rightarrow> if v = [] then b else a)"

text \<open>
  The body of each parser runs inside \<^verbatim>\<open>try ... except Exception: return None\<close>: an
  exception (here only the \<^verbatim>\<open>ValueError\<close> of \<^verbatim>\<open>float\<close>) makes the parser return
  \<^verbatim>\<open>None\<close>.
\<close>

definition except_return_None :: "error + 'a option \<Rightarrow> 'a option" where
  "except_return_None r = (case r of Inl e \<Rightarrow> None | Inr v \<Rightarrow> v)"

definition parse_walmart_html_element :: "scraper \<Rightarrow> html \<Rightarrow> string \<Rightarrow> ScrapedItem option" where
  "parse_walmart_html_element self elem deal_type_arg =
     except_return_None
       (case tag_get elem ''data-item-id'' of
          None \<Rightarrow> Inr None
        | Some pid \<Rightarrow>
            if pid = [] then Inr None
            else
              let name_elem = find_first (has_attr_value ''data-automation-id'' ''product-title'') elem;
                  name = (case name_elem of Some e \<Rightarrow> str_strip (get_text e) | None \<Rightarrow> ''Unknown'');
                  price_elem = find_first (has_attr_value ''data-automation-id'' ''product-price'') elem
              in and_then (case price_elem of
                             Some e \<Rightarrow> price_of_text (str_strip (get_text e))
                           | None \<Rightarrow> Inr 0) (\<lambda>price.
                   let img_elem = find_first (has_name ''img'') elem;
                       img = (case img_elem of
                                Some i \<Rightarrow> (case tag_get i ''src'' of Some u \<Rightarrow> u | None \<Rightarrow> [])
                              | None \<Rightarrow> [])
                   in Inr (Some \<lparr> product_id = pid,
                                   product_name = name,
                                   current_price = price,
                                   original_price = None,
                                   discount_percent = None,
                                   upc = None,
                                   stock_status = ''Unknown'',
                                   product_url = Some (base_url self @ ''/ip/'' @ pid),
                                   image_url = Some img,
                                   brand = None,
                                   category = None,
                                   deal_type = deal_type_arg,
                                   raw_data = None \<rparr>)))"

definition parse_homedepot_html_element :: "scraper \<Rightarrow> html \<Rightarrow> string \<Rightarrow> ScrapedItem option" where
  "parse_homedepot_html_element self elem deal_type_arg =
     except_return_None
       (case str_or (tag_get elem ''data-productid'') (tag_get elem ''data-itemid'') of
          None \<Rightarrow> Inr None
        | Some pid \<Rightarrow>
            if pid = [] then Inr None
            else
              let name_elem = find_first (class_matches [''product-title'', ''product-name'']) elem;
                  name = (case name_elem of Some e \<Rightarrow> str_strip (get_text e) | None \<Rightarrow> ''Unknown'');
                  price_elem = find_first (class_matches [''price'']) elem
              in and_then (case price_elem of
                             Some e \<Rightarrow> price_of_text (str_strip (get_text e))
                           | None \<Rightarrow> Inr 0) (\<lambda>price.
                   let img_elem = find_first (has_name ''img'') elem;
                       img = (case img_elem of
                                Some i \<Rightarrow> (case tag_get i ''src'' of Some u \<Rightarrow> u | None \<Rightarrow> [])
                              | None \<Rightarrow> [])
                   in Inr (Some \<lparr> product_id = pid,
                                   product_name = name,
                                   current_price = price,
                                   original_price = None,
                                   discount_percent = None,
                                   upc = None,
                                   stock_status = ''Unknown'',
                                   product_url = Some (base_url self @ ''/p/'' @ pid),
                                   image_url = Some img,
                                   brand = None,
                                   category = None,
                                   deal_type = deal_type_arg,
                                   raw_data = None \<rparr>)))"

section \<open>api.py: the search orchestrator\<close>

















subsection \<open>A search in which a store and an item fail\<close>





section \<open>The opportunity score as the specification words it\<close>

text \<open>
  The specification's formula, for comparison with \<open>calculate_opportunity_score\<close>: the
  profit component on a scale of one point per \$0.50 capped at 40, the margin halved and
  capped at 30, the ROI divided by 3 and capped at 30, the sum clamped to 100.
\<close>

definition opportunity_score_spec :: "real \<Rightarrow> real \<Rightarrow> real \<Rightarrow> real" where
  "opportunity_score_spec net margin roi =
     min (min (net / (1 / 2)) 40 + min (margin / 2) 30 + min (roi / 3) 30) 100"

section \<open>Rounding\<close>

lemma round_half_even_bounds:
  "x - 1 / 2 \<le> of_int (round_half_even x) \<and> of_int (round_half_even x) \<le> x + 1 / 2"
  unfolding round_half_even_def Let_def by (auto; linarith)

lemma py_round_lower: "x - 5 / 1000 \<le> py_round x 2"
proof -
  have "x * 100 - 1 / 2 \<le> of_int (round_half_even (x * 100))"
    using round_half_even_bounds [of "x * 100"] by simp
  then show ?thesis by (simp add: py_round_def field_simps)
qed

lemma py_round_upper: "py_round x 2 \<le> x + 5 / 1000"
proof -
  have "of_int (round_half_even (x * 100)) \<le> x * 100 + 1 / 2"
    using round_half_even_bounds [of "x * 100"] by simp
  then show ?thesis by (simp add: py_round_def field_simps)
qed


lemma round_half_even_nonpos: "x \<le> 0 \<Longrightarrow> round_half_even x \<le> 0"
  unfolding round_half_even_def Let_def by (auto; linarith)


lemma py_round_nonpos: "x \<le> 0 \<Longrightarrow> py_round x n \<le> 0"
  by (simp add: py_round_def round_half_even_nonpos mult_le_0_iff divide_le_0_iff)

section \<open>The profit calculator\<close>

lemmas eval_defs = calculate_profit_def calculate_buy_cost_def calculate_amazon_fees_def
  calculate_ebay_fees_def and_then_def dict_item_def dict_get_def dict_get_default_def
  float_or_def getattr_def ProfitConfig_vars_def PROFIT_CONFIG_def float_get_def init_def
  lower_def lower_char_def py_round_def round_half_even_def Let_def
  calculate_opportunity_score_def generate_recommendation_def
  compare_marketplaces_def find_best_marketplace_def estimate_fba_fee_def

subsection \<open>The Amazon fee model never returns\<close>

text \<open>
  \<^verbatim>\<open>calculate_amazon_fees\<close> reads \<^verbatim>\<open>PROFIT_CONFIG.CATEGORY_MARGINS\<close>, an attribute that
  \<^verbatim>\<open>ProfitConfig\<close> does not have, so it raises \<^verbatim>\<open>AttributeError\<close> for every price and
  cat, and so does every caller that selects the Amazon model.
\<close>

lemma calculate_amazon_fees_raises:
  "calculate_amazon_fees self p cat = Inl (AttributeError ''CATEGORY_MARGINS'')"
  by (simp add: calculate_amazon_fees_def and_then_def getattr_def ProfitConfig_vars_def)

lemma calculate_profit_amazon_raises:
  "lower m = ''amazon'' \<Longrightarrow>
   calculate_profit self b p m cat sh = Inl (AttributeError ''CATEGORY_MARGINS'')"
  by (simp add: calculate_profit_def calculate_amazon_fees_raises and_then_def dict_item_def
      calculate_buy_cost_def Let_def)

lemma find_best_marketplace_amazon_raises:
  assumes "0 < p"
  shows "find_best_marketplace self b (Some p) e cat = Inl (AttributeError ''CATEGORY_MARGINS'')"
proof -
  have "lower ''amazon'' = ''amazon''" by (simp add: lower_def lower_char_def)
  then show ?thesis using assms
    by (simp add: find_best_marketplace_def compare_marketplaces_def and_then_def
        calculate_profit_amazon_raises)
qed

subsection \<open>The eBay fee model\<close>

lemma calculate_profit_ebay_value:
  assumes "lower m \<noteq> ''amazon''"
  shows "\<exists>a. calculate_profit self b p m cat True = Inr a \<and>
     net_profit a = py_round (p - py_round (b + b * self_sales_tax_rate self) 2
        - py_round (p * (13 / 100) + (p * (29 / 1000) + 30 / 100)) 2 - self_shipping_cost self) 2"
  using assms
  by (simp add: calculate_profit_def calculate_buy_cost_def calculate_ebay_fees_def and_then_def
      dict_item_def float_or_def PROFIT_CONFIG_def Let_def algebra_simps)

text \<open>
  Selling at cost on the eBay model, default configuration: the net profit is at most 0
  for every price \<open>p \<ge> 0\<close> (it is at most \<open>-5.29 - 0.239 p\<close> before rounding).
\<close>

lemma calculate_profit_ebay_at_cost:
  assumes "0 \<le> p" and "lower m \<noteq> ''amazon''"
  shows "\<exists>a. calculate_profit (init None None None None) p p m cat True = Inr a \<and> net_profit a \<le> 0"
proof -
  let ?self = "init None None None None"
  obtain a where a: "calculate_profit ?self p p m cat True = Inr a"
    and n: "net_profit a = py_round (p - py_round (p + p * self_sales_tax_rate ?self) 2
        - py_round (p * (13 / 100) + (p * (29 / 1000) + 30 / 100)) 2 - self_shipping_cost ?self) 2"
    using calculate_profit_ebay_value [OF assms(2)] by blast
  have tax: "self_sales_tax_rate ?self = 8 / 100" and ship: "self_shipping_cost ?self = 5"
    by (simp_all add: init_def float_or_def PROFIT_CONFIG_def)
  have c: "p + p * (8 / 100) - 5 / 1000 \<le> py_round (p + p * (8 / 100)) 2"
    by (rule py_round_lower)
  have f: "p * (13 / 100) + (p * (29 / 1000) + 30 / 100) - 5 / 1000
      \<le> py_round (p * (13 / 100) + (p * (29 / 1000) + 30 / 100)) 2"
    by (rule py_round_lower)
  have "p - py_round (p + p * (8 / 100)) 2
        - py_round (p * (13 / 100) + (p * (29 / 1000) + 30 / 100)) 2 - 5 \<le> 0"
    using c f assms(1) by linarith
  then have "net_profit a \<le> 0"
    unfolding n tax ship by (rule py_round_nonpos)
  with a show ?thesis by blast
qed

subsection \<open>Choosing the marketplace\<close>

text \<open>
  With only an eBay price, the single candidate is returned. With no positive price at
  all the result is \<^verbatim>\<open>None\<close>, also when a price of 0 was passed.
\<close>

lemma find_best_marketplace_ebay_only:
  assumes "0 < p"
  shows "\<exists>a. calculate_profit self b p ''ebay'' cat True = Inr a \<and>
             find_best_marketplace self b None (Some p) cat = Inr (Some a)"
proof -
  have "lower ''ebay'' \<noteq> ''amazon''" by (simp add: lower_def lower_char_def)
  then obtain a where a: "calculate_profit self b p ''ebay'' cat True = Inr a"
    using calculate_profit_ebay_value by blast
  then have "find_best_marketplace self b None (Some p) cat = Inr (Some a)"
    using assms by (simp add: find_best_marketplace_def compare_marketplaces_def and_then_def)
  with a show ?thesis by blast
qed

lemma find_best_marketplace_zero_price:
  "find_best_marketplace self b None (Some 0) cat = Inr None"
  by (simp add: find_best_marketplace_def compare_marketplaces_def and_then_def)

text \<open>
  The branch taken when no candidate is profitable uses \<^verbatim>\<open>min\<close>: what it returns has the
  least net profit of all candidates, not the greatest.
\<close>

lemma foldl_min_least:
  fixes key :: "'a \<Rightarrow> real"
  shows "key (foldl (\<lambda>best y. if key y < key best then y else best) x xs) \<le> key x \<and>
   (\<forall>y \<in> set xs. key (foldl (\<lambda>best y. if key y < key best then y else best) x xs) \<le> key y)"
proof (induction xs arbitrary: x)
  case Nil
  then show ?case by simp
next
  case (Cons z zs)
  show ?case using Cons.IH [of "if key z < key x then z else x"]
    by (auto split: if_splits)
qed

lemma min_by_least:
  "min_by key xs = Inr m \<Longrightarrow> y \<in> set xs \<Longrightarrow> (key m :: real) \<le> key y"
  using foldl_min_least [of key] by (cases xs) auto

text \<open>
  C1. \<^verbatim>\<open>find_best_marketplace\<close> with at least one price supplied should return the best
  candidate and never \<^verbatim>\<open>None\<close>. On the code, a call that supplies an Amazon price returns
  nothing at all: buy price 10, Amazon price 25 and eBay price 24 under the default
  configuration raise \<^verbatim>\<open>AttributeError\<close> out of \<^verbatim>\<open>find_best_marketplace\<close>.
\<close>

theorem find_best_marketplace_with_amazon_price_raises:
  "find_best_marketplace (init None None None None) 10 (Some 25) (Some 24) ''Other''
    = Inl (AttributeError ''CATEGORY_MARGINS'')"
  by (simp add: eval_defs)

subsection \<open>The opportunity score\<close>

lemma calculate_opportunity_score_mono:
  "n \<le> n' \<Longrightarrow> m \<le> m' \<Longrightarrow> r \<le> r' \<Longrightarrow>
   calculate_opportunity_score n m r \<le> calculate_opportunity_score n' m' r'"
  unfolding calculate_opportunity_score_def Let_def
  by (intro min.mono add_mono divide_right_mono) simp_all

lemma calculate_opportunity_score_le_100: "calculate_opportunity_score n m r \<le> 100"
  by (simp add: calculate_opportunity_score_def Let_def)

text \<open>
  C3. The opportunity score should be non-decreasing in each argument and lie in
  \<open>[0, 100]\<close>. It is non-decreasing and at most 100 (the two lemmas above), but nothing
  clamps it from below: buying and selling at 10 on the eBay model, default configuration,
  gives the analysis an opportunity score of \<open>-62.57\<close>.
\<close>

theorem opportunity_score_below_zero:
  "map_sum id opportunity_score
     (calculate_profit (init None None None None) 10 10 ''ebay'' ''Other'' True)
    = Inr (- (6257 / 100))"
  by (simp add: eval_defs)

text \<open>
  C4. The profit component of the score should be the net profit on a scale of one point
  per \$0.50, capped at 40. The code divides the net profit by 20 instead: a net profit of
  20 with zero margin and ROI scores 1, where the specified formula gives 40.
\<close>

theorem opportunity_score_profit_scale:
  "calculate_opportunity_score 20 0 0 = 1 \<and> opportunity_score_spec 20 0 0 = 40"
  by (simp add: calculate_opportunity_score_def opportunity_score_spec_def)

lemma opportunity_score_profit_scale_reachable:
  "map_sum id opportunity_score
     (calculate_profit (init None None None None) 10 50 ''ebay'' ''Other'' True)
    = Inr (5725 / 100)"
  by (simp add: eval_defs)

subsection \<open>The profitability gate\<close>

lemma init_nonzero_thresholds:
  "a \<noteq> 0 \<Longrightarrow> g \<noteq> 0 \<Longrightarrow>
   self_min_profit_amount (init t s (Some a) (Some g)) = a \<and>
   self_min_profit_margin (init t s (Some a) (Some g)) = g"
  by (simp add: init_def float_or_def)

text \<open>
  C5. The gate should use exactly the thresholds the caller supplied. A calculator built
  with both thresholds 0 holds the defaults 5 and 0.20 instead, and an analysis with net
  profit 0.72 and margin 3.6 percent, which meets the thresholds 0 and 0, is not profitable.
\<close>

theorem zero_thresholds_replaced_by_defaults:
  "self_min_profit_amount (init None None (Some 0) (Some 0)) = 5 \<and>
   self_min_profit_margin (init None None (Some 0) (Some 0)) = 20 / 100 \<and>
   map_sum id (\<lambda>a. (net_profit a, profit_margin a, is_profitable a))
     (calculate_profit (init None None (Some 0) (Some 0)) 10 20 ''ebay'' ''Other'' True)
    = Inr (72 / 100, 36 / 10, False)"
  by (simp add: eval_defs)

subsection \<open>The regression scenario\<close>

lemma scenario_parts:
  "dict_item (calculate_buy_cost (init None None None None) 10 None) ''total_buy_cost'' = Inr (1080 / 100)"
  "estimate_fba_fee 25 = 550 / 100"
  "py_round (25 * AMAZON_FEE_PERCENT PROFIT_CONFIG) 2 = 375 / 100"
  "self_shipping_cost (init None None None None) = 5"
  by (simp_all add: eval_defs)

text \<open>
  C6. Buy price 10, sell price 25, marketplace \<^verbatim>\<open>amazon\<close>, cat \<^verbatim>\<open>Other\<close>, default
  configuration, should give a net profit of \<open>-0.05\<close>. The call raises \<^verbatim>\<open>AttributeError\<close>
  and produces no analysis.
\<close>

theorem calculate_profit_scenario_raises:
  "calculate_profit (init None None None None) 10 25 ''amazon'' ''Other'' True
    = Inl (AttributeError ''CATEGORY_MARGINS'')"
  by (simp add: eval_defs)

text \<open>
  C7. Selling at cost should give a net profit of at most 0 on either fee model. On the
  eBay model it does (\<open>calculate_profit_ebay_at_cost\<close>); on the Amazon model the call
  raises \<^verbatim>\<open>AttributeError\<close>, here at the price 10.
\<close>

theorem calculate_profit_amazon_at_cost_raises:
  "calculate_profit (init None None None None) 10 10 ''amazon'' ''Other'' True
    = Inl (AttributeError ''CATEGORY_MARGINS'')"
  by (simp add: eval_defs)

section \<open>Utilities\<close>




lemma ratio_le_1: "i \<le> u \<Longrightarrow> real i / real u \<le> 1"
  by (cases "u = 0") (simp_all add: pos_divide_le_eq)

text \<open>
  C10. \<^verbatim>\<open>fuzzy_match_products\<close> is symmetric, its result lies in \<open>[0, 1]\<close>, and it is 1
  whenever the two names have the same non-empty set of lowercased words.
\<close>

theorem fuzzy_match_products_properties:
  "fuzzy_match_products a b = fuzzy_match_products b a \<and>
   0 \<le> fuzzy_match_products a b \<and> fuzzy_match_products a b \<le> 1 \<and>
   (set (str_split (lower a)) = set (str_split (lower b)) \<and> set (str_split (lower a)) \<noteq> {}
      \<longrightarrow> fuzzy_match_products a b = 1)"
proof -
  let ?A = "set (str_split (lower a))" and ?B = "set (str_split (lower b))"
  have sym: "fuzzy_match_products a b = fuzzy_match_products b a"
    by (simp add: fuzzy_match_products_def Let_def Int_commute Un_commute disj_commute)
  have "card (?A \<inter> ?B) \<le> card (?A \<union> ?B)"
    by (intro card_mono) auto
  then have le: "real (card (?A \<inter> ?B)) / real (card (?A \<union> ?B)) \<le> 1"
    by (rule ratio_le_1)
  have range: "0 \<le> fuzzy_match_products a b \<and> fuzzy_match_products a b \<le> 1"
    using le by (simp add: fuzzy_match_products_def Let_def del: set_empty)
  have one: "fuzzy_match_products a b = 1" if "?A = ?B" "?A \<noteq> {}"
  proof -
    have "0 < card ?B" using that by (simp add: card_gt_0_iff del: set_empty)
    then show ?thesis using that by (simp add: fuzzy_match_products_def Let_def del: set_empty)
  qed
  show ?thesis using sym range one by blast
qed

theorem fuzzy_match_products_properties_witness:
  "fuzzy_match_products ''Red Shoe'' ''shoe  RED'' = 1 \<and>
   set (str_split (lower ''Red Shoe'')) = set (str_split (lower ''shoe  RED'')) \<and>
   set (str_split (lower ''Red Shoe'')) \<noteq> {}"
proof -
  have w1: "str_split (lower ''Red Shoe'') = [''red'', ''shoe'']"
    by (simp add: str_split_def lower_def lower_char_def is_space_def)
  have w2: "str_split (lower ''shoe  RED'') = [''shoe'', ''red'']"
    by (simp add: str_split_def lower_def lower_char_def is_space_def)
  have s: "set (str_split (lower ''Red Shoe'')) = set (str_split (lower ''shoe  RED''))"
    unfolding w1 w2 by auto
  have n: "set (str_split (lower ''Red Shoe'')) \<noteq> {}"
    unfolding w1 by simp
  show ?thesis
    using fuzzy_match_products_properties [of "''Red Shoe''" "''shoe  RED''"] s n by blast
qed

section \<open>The HTML element parsers\<close>

lemmas scrape_defs = parse_walmart_html_element_def parse_homedepot_html_element_def
  except_return_None_def find_first_def and_then_def price_of_text_def py_float_def
  str_strip_def is_space_def is_digit_def digit_or_comma_def digits_value_def digit_value_def
  WalmartScraper_def HomeDepotScraper_def str_or_def Let_def lower_def lower_char_def

text \<open>
  An element with a product id and no price element, or with a price element whose text
  holds no dollar amount, is emitted with the price 0.
\<close>

lemma parse_walmart_html_element_without_price:
  assumes "tag_get elem ''data-item-id'' = Some pid" and "pid \<noteq> []"
    and "find_first (has_attr_value ''data-automation-id'' ''product-price'') elem = None"
  shows "\<exists>item. parse_walmart_html_element self elem d = Some item \<and> current_price item = 0"
  using assms
  by (simp add: parse_walmart_html_element_def except_return_None_def and_then_def Let_def)

lemma parse_walmart_html_element_unparsed_price:
  assumes "tag_get elem ''data-item-id'' = Some pid" and "pid \<noteq> []"
    and "find_first (has_attr_value ''data-automation-id'' ''product-price'') elem = Some e"
    and "price_search (str_strip (get_text e)) = None"
  shows "\<exists>item. parse_walmart_html_element self elem d = Some item \<and> current_price item = 0"
  using assms
  by (simp add: parse_walmart_html_element_def except_return_None_def and_then_def Let_def
      price_of_text_def)

lemma parse_homedepot_html_element_without_price:
  assumes "str_or (tag_get elem ''data-productid'') (tag_get elem ''data-itemid'') = Some pid"
    and "pid \<noteq> []"
    and "find_first (class_matches [''price'']) elem = None"
  shows "\<exists>item. parse_homedepot_html_element self elem d = Some item \<and> current_price item = 0"
  using assms
  by (simp add: parse_homedepot_html_element_def except_return_None_def and_then_def Let_def)

text \<open>A price that is there is read, thousands separator included.\<close>

lemma parse_walmart_html_element_price:
  "map_option current_price (parse_walmart_html_element WalmartScraper
     (Tag ''div'' [(''data-item-id'', ''123'')]
        [Tag ''span'' [(''data-automation-id'', ''product-price'')]
           [NavString ''current price $1,234.56'']]) ''Clearance'')
   = Some (123456 / 100)"
  by (simp add: scrape_defs)

text \<open>
  C8. An item whose current price is missing or cannot be parsed should be dropped. The
  two HTML element parsers emit it with \<open>current_price = 0\<close>: the Walmart parser for an
  element with a title and no price element, the Home Depot parser for an element whose
  price element reads "See price in cart".
\<close>

theorem html_parsers_emit_zero_price:
  "parse_walmart_html_element WalmartScraper
     (Tag ''div'' [(''data-item-id'', ''123'')]
        [Tag ''span'' [(''data-automation-id'', ''product-title'')] [NavString ''Lamp'']])
     ''Clearance''
   = Some \<lparr> product_id = ''123'', product_name = ''Lamp'', current_price = 0,
       original_price = None, discount_percent = None, upc = None, stock_status = ''Unknown'',
       product_url = Some ''https://www.walmart.com/ip/123'', image_url = Some [],
       brand = None, category = None, deal_type = ''Clearance'', raw_data = None \<rparr> \<and>
   parse_homedepot_html_element HomeDepotScraper
     (Tag ''div'' [(''data-productid'', ''205'')]
        [Tag ''div'' [(''class'', ''product-title'')] [NavString ''Drill''],
         Tag ''div'' [(''class'', ''price'')] [NavString ''See price in cart'']])
     ''Special Buy''
   = Some \<lparr> product_id = ''205'', product_name = ''Drill'', current_price = 0,
       original_price = None, discount_percent = None, upc = None, stock_status = ''Unknown'',
       product_url = Some ''https://www.homedepot.com/p/205'', image_url = Some [],
       brand = None, category = None, deal_type = ''Special Buy'', raw_data = None \<rparr>"
  by (simp add: scrape_defs)

section \<open>The search orchestrator\<close>












end
